theory Spec2Isabelle
  imports Main "HOL-Library.Word" "HOL-Library.Monad_Syntax" "HOL-Library.Signed_Division"
begin

unbundle bit_operations_syntax

section \<open>The Brief virtual machine\<close>

text \<open>
  A shallow embedding of the Brief VM of \<^verbatim>\<open>src/src/Brief.cpp\<close> (the later source, with
  direct framing over the serial port), and of the few functions of the earlier source
  \<^verbatim>\<open>Firmware/libraries/Brief/Brief.cpp\<close> that differ from it and that the
  specification also describes.

  Conventions of the embedding:
  \<^item> \<^verbatim>\<open>int16_t\<close> is \<open>16 word\<close>, read as signed with \<open>sint\<close>; \<^verbatim>\<open>uint8_t\<close> is
    \<open>8 word\<close>; a conversion between them is \<open>ucast\<close> (truncation or zero extension) or
    \<open>scast\<close> (sign extension).
  \<^item> The C arrays \<^verbatim>\<open>memory\<close>, \<^verbatim>\<open>dstack\<close> and \<^verbatim>\<open>rstack\<close> are functions from the cell
    offset (an \<open>int\<close>) to the cell. The array proper is the offsets \<open>0 ..< SIZE\<close>; the C code
    does form and dereference addresses outside its arrays, and such an access is an access
    to an offset outside that interval. The stack pointers \<^verbatim>\<open>s\<close> and \<^verbatim>\<open>r\<close> are the
    offsets \<^verbatim>\<open>s - dstack\<close> and \<^verbatim>\<open>r - rstack\<close>; the empty stack is offset \<open>-1\<close>.
  \<^item> A function of the VM that changes the global state takes the state and returns the new
    one, in \<open>option\<close>: \<open>None\<close> says that the call does not return.
  \<^item> \<^verbatim>\<open>error\<close> is declared forward in the source, and the bounds checks call it while
    it calls them back through \<^verbatim>\<open>event\<close>. Every function that may raise an error takes
    the error routine as its first argument \<open>err\<close>; the routine itself is defined afterwards
    by recursion on the nesting depth that it is allowed.
  \<^item> Where C++ leaves the order of evaluation open, the model takes the order of g++: the
    arguments of a call are evaluated from right to left, and the target of an assignment
    after its right-hand side.
\<close>

subsection \<open>Constants of Brief.h\<close>

text \<open>
  Modelled from the spec: the header \<^verbatim>\<open>Brief.h\<close> that \<^verbatim>\<open>src/src/Brief.cpp\<close> includes is not
  part of the tree. The constants are those of the specification (sections 3, 4.7 and 7),
  with the sizes of \<^verbatim>\<open>Firmware/libraries/Brief/Brief.h\<close>, which agrees with it.
\<close>

definition MEM_SIZE :: int where
  "MEM_SIZE = 512"

definition DATA_STACK_SIZE :: int where
  "DATA_STACK_SIZE = 4"

definition RETURN_STACK_SIZE :: int where
  "RETURN_STACK_SIZE = 4"

definition BOOT_EVENT_ID :: "8 word" where
  "BOOT_EVENT_ID = 0xFF"

definition VM_EVENT_ID :: "16 word" where
  "VM_EVENT_ID = 0xFE"

definition MAX_INTERRUPTS :: int where
  "MAX_INTERRUPTS = 6"

definition VM_ERROR_RETURN_STACK_UNDERFLOW :: "8 word" where
  "VM_ERROR_RETURN_STACK_UNDERFLOW = 0"

definition VM_ERROR_RETURN_STACK_OVERFLOW :: "8 word" where
  "VM_ERROR_RETURN_STACK_OVERFLOW = 1"

definition VM_ERROR_DATA_STACK_UNDERFLOW :: "8 word" where
  "VM_ERROR_DATA_STACK_UNDERFLOW = 2"

definition VM_ERROR_DATA_STACK_OVERFLOW :: "8 word" where
  "VM_ERROR_DATA_STACK_OVERFLOW = 3"

definition VM_ERROR_OUT_OF_MEMORY :: "8 word" where
  "VM_ERROR_OUT_OF_MEMORY = 4"

subsection \<open>The state\<close>

text \<open>
  The calls that the VM makes to the Arduino core are recorded in \<open>hw_calls\<close>; a call that
  returns a value gets it from \<open>hw_in\<close>, at the position of the call in the record.
\<close>

datatype hw_call =
    PinMode "8 word" "8 word"
  | DigitalRead "8 word"
  | DigitalWrite "8 word" bool
  | AnalogRead "8 word"
  | AnalogWrite "8 word" "16 word"
  | AttachInterrupt nat "8 word"
  | DetachInterrupt "8 word"
  | Millis
  | PulseIn "8 word" "8 word"

text \<open>
  The globals of \<^verbatim>\<open>Brief.cpp\<close>, and the two directions of the serial port: \<open>serial_in\<close> is
  the bytes that \<^verbatim>\<open>Serial.read\<close> will deliver, \<open>serial_out\<close> the bytes given to
  \<^verbatim>\<open>Serial.write\<close> so far. \<^verbatim>\<open>pop\<close> and \<^verbatim>\<open>rpop\<close> have no \<^verbatim>\<open>return\<close> statement on their
  error path, and a division by zero has no defined result; \<open>indet\<close> is the indeterminate
  value that the program then reads. The global \<^verbatim>\<open>last\<close> is the field \<open>last_addr\<close>.
\<close>

record vm =
  memory :: "int \<Rightarrow> 8 word"
  dstack :: "int \<Rightarrow> 16 word"
  s :: int
  rstack :: "int \<Rightarrow> 16 word"
  r :: int
  p :: "16 word"
  here :: "16 word"
  last_addr :: "16 word"
  eventBuffer :: "16 word"
  loopword :: "16 word"
  loopIterations :: "16 word"
  isrs :: "int \<Rightarrow> 16 word"
  serial_in :: "8 word list"
  serial_out :: "8 word list"
  hw_calls :: "hw_call list"
  hw_in :: "nat \<Rightarrow> 16 word"
  indet :: "16 word"

type_synonym raise = "8 word \<Rightarrow> vm \<Rightarrow> vm option"

type_synonym prim = "raise \<Rightarrow> vm \<Rightarrow> vm option"

subsection \<open>Memory (dictionary)\<close>

definition memget :: "raise \<Rightarrow> 16 word \<Rightarrow> vm \<Rightarrow> (8 word \<times> vm) option" where
  "memget err address st =
     (if sint address < 0 \<or> MEM_SIZE \<le> sint address
      then do { st' \<leftarrow> err VM_ERROR_OUT_OF_MEMORY st; Some (0, st') }
      else Some (memory st (sint address), st))"

definition memset :: "raise \<Rightarrow> 16 word \<Rightarrow> 8 word \<Rightarrow> vm \<Rightarrow> vm option" where
  "memset err address val st =
     (if MEM_SIZE \<le> sint address
      then err VM_ERROR_OUT_OF_MEMORY st
      else Some (st\<lparr>memory := (memory st)(sint address := val)\<rparr>))"

subsection \<open>Data stack and return stack\<close>

definition push :: "raise \<Rightarrow> 16 word \<Rightarrow> vm \<Rightarrow> vm option" where
  "push err x st =
     (if DATA_STACK_SIZE \<le> s st
      then err VM_ERROR_DATA_STACK_OVERFLOW st
      else Some (st\<lparr>s := s st + 1, dstack := (dstack st)(s st + 1 := x)\<rparr>))"

definition pop :: "raise \<Rightarrow> vm \<Rightarrow> (16 word \<times> vm) option" where
  "pop err st =
     (if s st < 0
      then do { st' \<leftarrow> err VM_ERROR_DATA_STACK_UNDERFLOW st; Some (indet st', st') }
      else Some (dstack st (s st), st\<lparr>s := s st - 1\<rparr>))"

definition rpush :: "raise \<Rightarrow> 16 word \<Rightarrow> vm \<Rightarrow> vm option" where
  "rpush err x st =
     (if RETURN_STACK_SIZE \<le> r st
      then err VM_ERROR_RETURN_STACK_OVERFLOW st
      else Some (st\<lparr>r := r st + 1, rstack := (rstack st)(r st + 1 := x)\<rparr>))"

definition rpop :: "raise \<Rightarrow> vm \<Rightarrow> (16 word \<times> vm) option" where
  "rpop err st =
     (if r st < 0
      then do { st' \<leftarrow> err VM_ERROR_RETURN_STACK_UNDERFLOW st; Some (indet st', st') }
      else Some (rstack st (r st), st\<lparr>r := r st - 1\<rparr>))"

subsection \<open>Events\<close>

text \<open>
  In \<^verbatim>\<open>memset(eventBuffer++, pop())\<close> the two arguments are unsequenced in C++. They
  only interfere when \<^verbatim>\<open>pop\<close> raises an underflow (the error event moves the cursor);
  \<^verbatim>\<open>pop\<close> runs first, and the cursor is read and advanced after it.
\<close>

definition eventHeader :: "raise \<Rightarrow> vm \<Rightarrow> vm option" where
  "eventHeader err st =
     do { (x, st1) \<leftarrow> pop err (st\<lparr>eventBuffer := here st\<rparr>);
          let a = eventBuffer st1;
          memset err a (ucast x) (st1\<lparr>eventBuffer := a + 1\<rparr>) }"

definition eventBody8 :: "raise \<Rightarrow> vm \<Rightarrow> vm option" where
  "eventBody8 err st =
     do { (x, st1) \<leftarrow> pop err st;
          let a = eventBuffer st1;
          memset err a (ucast x) (st1\<lparr>eventBuffer := a + 1\<rparr>) }"

definition eventBody16 :: "raise \<Rightarrow> vm \<Rightarrow> vm option" where
  "eventBody16 err st =
     do { (val, st1) \<leftarrow> pop err st;
          let a = eventBuffer st1;
          st2 \<leftarrow> memset err a (ucast (signed_drop_bit 8 val)) (st1\<lparr>eventBuffer := a + 1\<rparr>);
          let b = eventBuffer st2;
          memset err b (ucast val) (st2\<lparr>eventBuffer := b + 1\<rparr>) }"

text \<open>
  The loop of \<^verbatim>\<open>eventFooter\<close>: \<open>k\<close> bytes remain to be sent, the next one is at
  \<^verbatim>\<open>here + i\<close>.
\<close>

primrec eventFooter_loop :: "raise \<Rightarrow> nat \<Rightarrow> 16 word \<Rightarrow> vm \<Rightarrow> vm option" where
  "eventFooter_loop err 0 i st = Some st"
| "eventFooter_loop err (Suc k) i st =
     do { (b, st1) \<leftarrow> memget err (here st + i) st;
          eventFooter_loop err k (i + 1) (st1\<lparr>serial_out := serial_out st1 @ [b]\<rparr>) }"

definition eventFooter :: "raise \<Rightarrow> vm \<Rightarrow> vm option" where
  "eventFooter err st =
     (let len = (ucast (eventBuffer st - here st) :: 8 word)
      in eventFooter_loop err (unat len) 0 (st\<lparr>serial_out := serial_out st @ [len - 1]\<rparr>))"

definition event :: "raise \<Rightarrow> 8 word \<Rightarrow> 16 word \<Rightarrow> vm \<Rightarrow> vm option" where
  "event err eid val st =
     do { st1 \<leftarrow> push err (ucast eid) st;
          st2 \<leftarrow> eventHeader err st1;
          st3 \<leftarrow> (if val \<noteq> 0
                  then (if - 128 \<le> sint val \<and> sint val \<le> 127
                        then do { st' \<leftarrow> push err val st2; eventBody8 err st' }
                        else do { st' \<leftarrow> push err val st2; eventBody16 err st' })
                  else Some st2);
          eventFooter err st3 }"

text \<open>
  \<^verbatim>\<open>error(code)\<close> is \<^verbatim>\<open>event(code, VM_EVENT_ID)\<close>. The first argument counts how deep
  error reports may nest (an error raised while an error event is being packed); at depth
  0 the call does not return.
\<close>

primrec error :: "nat \<Rightarrow> 8 word \<Rightarrow> vm \<Rightarrow> vm option" where
  "error 0 code st = None"
| "error (Suc n) code st = event (error n) code VM_EVENT_ID st"

subsection \<open>The primitive instructions\<close>

text \<open>
  Every instruction has the type \<open>prim\<close>, also those that cannot raise an error, so that
  they fit one table.
\<close>

definition ret :: prim where
  "ret err st = do { (x, st1) \<leftarrow> rpop err st; Some (st1\<lparr>p := x\<rparr>) }"

definition eventOp :: prim where
  "eventOp err st =
     do { (i, st1) \<leftarrow> pop err st;
          (val, st2) \<leftarrow> pop err st1;
          event err (ucast i) val st2 }"

definition mem16 :: "raise \<Rightarrow> 16 word \<Rightarrow> vm \<Rightarrow> (16 word \<times> vm) option" where
  "mem16 err address st =
     do { (hi, st1) \<leftarrow> memget err address st;
          (lo, st2) \<leftarrow> memget err (address + 1) st1;
          Some (push_bit 8 (ucast hi) OR ucast lo, st2) }"

definition fetch8 :: prim where
  "fetch8 err st =
     do { (b, st1) \<leftarrow> memget err (dstack st (s st)) st;
          Some (st1\<lparr>dstack := (dstack st1)(s st1 := ucast b)\<rparr>) }"

definition store8 :: prim where
  "store8 err st =
     do { (v, st1) \<leftarrow> pop err st;
          (a, st2) \<leftarrow> pop err st1;
          memset err a (ucast v) st2 }"

definition fetch16 :: prim where
  "fetch16 err st =
     do { (v, st1) \<leftarrow> mem16 err (dstack st (s st)) st;
          Some (st1\<lparr>dstack := (dstack st1)(s st1 := v)\<rparr>) }"

definition store16 :: prim where
  "store16 err st =
     do { (a, st1) \<leftarrow> pop err st;
          (v, st2) \<leftarrow> pop err st1;
          st3 \<leftarrow> memset err a (ucast (signed_drop_bit 8 v)) st2;
          memset err (a + 1) (ucast v) st3 }"

definition lit8 :: prim where
  "lit8 err st =
     do { let a = p st;
          (b, st1) \<leftarrow> memget err a (st\<lparr>p := a + 1\<rparr>);
          push err (ucast b) st1 }"

definition lit16 :: prim where
  "lit16 err st =
     do { let a = p st;
          (v, st1) \<leftarrow> mem16 err a (st\<lparr>p := a + 1\<rparr>);
          st2 \<leftarrow> push err v st1;
          Some (st2\<lparr>p := p st2 + 1\<rparr>) }"

text \<open>
  The binary operations pop \<^verbatim>\<open>x\<close> and replace the new top \<^verbatim>\<open>*s\<close> by \<^verbatim>\<open>*s op x\<close>; the
  unary ones replace the top in place. Neither checks that there is a top.
\<close>

definition binary :: "(16 word \<Rightarrow> 16 word \<Rightarrow> 16 word) \<Rightarrow> prim" where
  "binary f err st =
     do { (x, st1) \<leftarrow> pop err st;
          Some (st1\<lparr>dstack := (dstack st1)(s st1 := f (dstack st1 (s st1)) x)\<rparr>) }"

definition unary :: "(16 word \<Rightarrow> 16 word) \<Rightarrow> prim" where
  "unary f err st = Some (st\<lparr>dstack := (dstack st)(s st := f (dstack st (s st)))\<rparr>)"

definition add :: prim where
  "add = binary (\<lambda>a x. a + x)"

definition sub :: prim where
  "sub = binary (\<lambda>a x. a - x)"

definition mul :: prim where
  "mul = binary (\<lambda>a x. a * x)"

text \<open>
  \<^verbatim>\<open>/\<close> and \<^verbatim>\<open>%\<close> of C truncate towards zero. A zero divisor is undefined behaviour
  in C; the model leaves the indeterminate value on the stack.
\<close>

definition div_op :: prim where
  "div_op err st =
     do { (x, st1) \<leftarrow> pop err st;
          Some (st1\<lparr>dstack := (dstack st1)(s st1 :=
                  (if x = 0 then indet st1
                   else word_of_int (sint (dstack st1 (s st1)) sdiv sint x)))\<rparr>) }"

definition mod_op :: prim where
  "mod_op err st =
     do { (x, st1) \<leftarrow> pop err st;
          Some (st1\<lparr>dstack := (dstack st1)(s st1 :=
                  (if x = 0 then indet st1
                   else word_of_int (sint (dstack st1 (s st1)) smod sint x)))\<rparr>) }"

definition andb :: prim where
  "andb = binary (\<lambda>a x. a AND x)"

definition orb :: prim where
  "orb = binary (\<lambda>a x. a OR x)"

definition xorb :: prim where
  "xorb = binary (\<lambda>a x. a XOR x)"

text \<open>
  A negative count shifts left, another one right (arithmetically, as the compiler does for
  a signed operand). C leaves counts of 16 and more undefined; the model shifts every bit
  out.
\<close>

definition shift :: prim where
  "shift = binary (\<lambda>a x. if sint x < 0 then push_bit (nat (- sint x)) a
                          else signed_drop_bit (nat (sint x)) a)"

definition boolval :: "bool \<Rightarrow> 16 word" where
  "boolval b = (if b then 0xFFFF else 0)"

definition eq :: prim where
  "eq = binary (\<lambda>a x. boolval (a = x))"

definition neq :: prim where
  "neq = binary (\<lambda>a x. boolval (a \<noteq> x))"

definition gt :: prim where
  "gt = binary (\<lambda>a x. boolval (sint x < sint a))"

definition geq :: prim where
  "geq = binary (\<lambda>a x. boolval (sint x \<le> sint a))"

definition lt :: prim where
  "lt = binary (\<lambda>a x. boolval (sint a < sint x))"

definition leq :: prim where
  "leq = binary (\<lambda>a x. boolval (sint a \<le> sint x))"

definition notb :: prim where
  "notb = unary (\<lambda>a. NOT a)"

definition neg :: prim where
  "neg = unary (\<lambda>a. - a)"

definition inc :: prim where
  "inc = unary (\<lambda>a. a + 1)"

definition dec :: prim where
  "dec = unary (\<lambda>a. a - 1)"

text \<open>Stack manipulation.\<close>

definition drop_op :: prim where
  "drop_op err st = Some (st\<lparr>s := s st - 1\<rparr>)"

definition dup :: prim where
  "dup err st = push err (dstack st (s st)) st"

definition swap :: prim where
  "swap err st =
     (let t = dstack st (s st); n = s st - 1
      in Some (st\<lparr>dstack := (dstack st)(s st := dstack st n, n := t)\<rparr>))"

definition pick :: prim where
  "pick err st =
     do { (n, st1) \<leftarrow> pop err st;
          push err (dstack st1 (s st1 - sint n)) st1 }"

text \<open>The loop of \<^verbatim>\<open>roll\<close>: \<open>k\<close> cells remain to be moved down, the next one to cell \<open>i\<close>.\<close>

primrec roll_loop :: "nat \<Rightarrow> int \<Rightarrow> vm \<Rightarrow> vm" where
  "roll_loop 0 i st = st"
| "roll_loop (Suc k) i st = roll_loop k (i + 1) (st\<lparr>dstack := (dstack st)(i := dstack st (i + 1))\<rparr>)"

definition roll :: prim where
  "roll err st =
     do { (n, st1) \<leftarrow> pop err st;
          let t = dstack st1 (s st1 - sint n);
          let st2 = roll_loop (nat (sint n)) (s st1 - sint n) st1;
          Some (st2\<lparr>dstack := (dstack st2)(s st2 := t)\<rparr>) }"

definition clr :: prim where
  "clr err st = Some (st\<lparr>s := - 1\<rparr>)"

definition pushr :: prim where
  "pushr err st = do { (x, st1) \<leftarrow> pop err st; rpush err x st1 }"

definition popr :: prim where
  "popr err st = do { (x, st1) \<leftarrow> rpop err st; push err x st1 }"

definition peekr :: prim where
  "peekr err st = push err (rstack st (r st)) st"

text \<open>Dictionary and control.\<close>

definition forget :: prim where
  "forget err st =
     do { (i, st1) \<leftarrow> pop err st;
          Some (if sint i < sint (here st1) then st1\<lparr>here := i\<rparr> else st1) }"

definition call :: prim where
  "call err st =
     do { st1 \<leftarrow> rpush err (p st) st;
          (a, st2) \<leftarrow> pop err st1;
          Some (st2\<lparr>p := a\<rparr>) }"

definition quote :: prim where
  "quote err st =
     do { let a = p st;
          (len, st1) \<leftarrow> memget err a (st\<lparr>p := a + 1\<rparr>);
          st2 \<leftarrow> push err (p st1) st1;
          Some (st2\<lparr>p := p st2 + ucast len\<rparr>) }"

definition choice :: prim where
  "choice err st =
     do { (f, st1) \<leftarrow> pop err st;
          (t, st2) \<leftarrow> pop err st1;
          st3 \<leftarrow> rpush err (p st2) st2;
          (c, st4) \<leftarrow> pop err st3;
          Some (st4\<lparr>p := (if c = 0 then f else t)\<rparr>) }"

definition chooseIf :: prim where
  "chooseIf err st =
     do { (t, st1) \<leftarrow> pop err st;
          (c, st2) \<leftarrow> pop err st1;
          if c \<noteq> 0
          then do { st3 \<leftarrow> rpush err (p st2) st2; Some (st3\<lparr>p := t\<rparr>) }
          else Some st2 }"

definition next_op :: prim where
  "next_op err st =
     do { (c, st1) \<leftarrow> rpop err st;
          let count = c - 1;
          let a = p st1;
          (rel, st2) \<leftarrow> memget err a (st1\<lparr>p := a + 1\<rparr>);
          if 0 < sint count
          then do { st3 \<leftarrow> rpush err count st2; Some (st3\<lparr>p := p st3 - (ucast rel + 2)\<rparr>) }
          else Some st2 }"

definition nop :: prim where
  "nop err st = Some st"

text \<open>The loop word and the reset.\<close>

definition loopTicks :: prim where
  "loopTicks err st = push err (loopIterations st AND 0x7FFF) st"

definition setLoop :: prim where
  "setLoop err st =
     do { (w, st1) \<leftarrow> pop err (st\<lparr>loopIterations := 0\<rparr>);
          Some (st1\<lparr>loopword := w\<rparr>) }"

definition stopLoop :: prim where
  "stopLoop err st = Some (st\<lparr>loopword := - 1\<rparr>)"

definition resetBoard :: prim where
  "resetBoard err st =
     do { st1 \<leftarrow> clr err st;
          Some (st1\<lparr>last_addr := 0, here := 0, loopword := - 1, loopIterations := 0\<rparr>) }"

text \<open>The instructions that call the Arduino core.\<close>

definition hw_do :: "hw_call \<Rightarrow> vm \<Rightarrow> vm" where
  "hw_do c st = st\<lparr>hw_calls := hw_calls st @ [c]\<rparr>"

definition hw_ask :: "hw_call \<Rightarrow> vm \<Rightarrow> 16 word \<times> vm" where
  "hw_ask c st = (hw_in st (length (hw_calls st)), hw_do c st)"

definition pinMode :: prim where
  "pinMode err st =
     do { (b, st1) \<leftarrow> pop err st;
          (a, st2) \<leftarrow> pop err st1;
          Some (hw_do (PinMode (ucast a) (ucast b)) st2) }"

definition digitalRead :: prim where
  "digitalRead err st =
     do { (a, st1) \<leftarrow> pop err st;
          let (v, st2) = hw_ask (DigitalRead (ucast a)) st1;
          push err (if v \<noteq> 0 then - 1 else 0) st2 }"

definition digitalWrite :: prim where
  "digitalWrite err st =
     do { (b, st1) \<leftarrow> pop err st;
          (a, st2) \<leftarrow> pop err st1;
          Some (hw_do (DigitalWrite (ucast a) (b \<noteq> 0)) st2) }"

definition analogRead :: prim where
  "analogRead err st =
     do { (a, st1) \<leftarrow> pop err st;
          let (v, st2) = hw_ask (AnalogRead (ucast a)) st1;
          push err v st2 }"

definition analogWrite :: prim where
  "analogWrite err st =
     do { (b, st1) \<leftarrow> pop err st;
          (a, st2) \<leftarrow> pop err st1;
          Some (hw_do (AnalogWrite (ucast a) b) st2) }"

text \<open>
  The \<^verbatim>\<open>switch\<close> of \<^verbatim>\<open>attachISR\<close> has no \<^verbatim>\<open>break\<close>: from the case of the requested line
  it falls through the cases of all higher lines, up to line 6.
\<close>

definition attachISR :: prim where
  "attachISR err st =
     do { (m, st1) \<leftarrow> pop err st;
          (i, st2) \<leftarrow> pop err st1;
          (w, st3) \<leftarrow> pop err st2;
          let mode = (ucast m :: 8 word);
          let interrupt = (ucast i :: 8 word);
          let st4 = st3\<lparr>isrs := (isrs st3)(uint interrupt := w)\<rparr>;
          Some (st4\<lparr>hw_calls := hw_calls st4 @
                  map (\<lambda>k. AttachInterrupt k mode) [unat interrupt..<7]\<rparr>) }"

definition detachISR :: prim where
  "detachISR err st =
     do { (i, st1) \<leftarrow> pop err st;
          Some (hw_do (DetachInterrupt (ucast i)) (st1\<lparr>isrs := (isrs st1)(sint i := - 1)\<rparr>)) }"

definition milliseconds :: prim where
  "milliseconds err st = (let (v, st1) = hw_ask Millis st in push err v st1)"

definition pulseIn :: prim where
  "pulseIn err st =
     do { (b, st1) \<leftarrow> pop err st;
          (a, st2) \<leftarrow> pop err st1;
          let (v, st3) = hw_ask (PulseIn (ucast a) (ucast b)) st2;
          push err v st3 }"

subsection \<open>The interpreter\<close>

text \<open>
  The instruction table as \<^verbatim>\<open>setup\<close> binds it, opcodes 0 to 59 in this order. A slot
  that was never bound holds a null pointer; calling it does not return.
\<close>

definition instructions_table :: "prim list" where
  "instructions_table =
     [ret, lit8, lit16, quote, eventHeader, eventBody8, eventBody16, eventFooter,
      eventOp, fetch8, store8, fetch16, store16, add, sub, mul, div_op, mod_op, andb,
      orb, xorb, shift, eq, neq, gt, geq, lt, leq, notb, neg, inc, dec, drop_op, dup,
      swap, pick, roll, clr, pushr, popr, peekr, forget, call, choice, chooseIf,
      loopTicks, setLoop, stopLoop, resetBoard, pinMode, digitalRead, digitalWrite,
      analogRead, analogWrite, attachISR, detachISR, milliseconds, pulseIn, next_op,
      nop]"

definition instructions :: "nat \<Rightarrow> prim option" where
  "instructions i =
     (if i < length instructions_table then Some (instructions_table ! i) else None)"

text \<open>One turn of the \<^verbatim>\<open>do ... while\<close> loop of \<^verbatim>\<open>run\<close>.\<close>

definition step :: "raise \<Rightarrow> vm \<Rightarrow> vm option" where
  "step err st =
     do { let a = p st;
          (b, st1) \<leftarrow> memget err a (st\<lparr>p := a + 1\<rparr>);
          let i = (ucast b :: 16 word);
          if i AND 0x80 = 0
          then (case instructions (unat i) of None \<Rightarrow> None | Some f \<Rightarrow> f err st1)
          else do { (nx, st2) \<leftarrow> memget err (p st1 + 1) st1;
                    st3 \<leftarrow> (if nx \<noteq> 0 then rpush err (p st2 + 1) st2 else Some st2);
                    (lo, st4) \<leftarrow> memget err (p st3) st3;
                    Some (st4\<lparr>p := (push_bit 8 i AND 0x7F00) OR ucast lo\<rparr>) } }"

text \<open>
  \<^verbatim>\<open>run\<close> loops until \<^verbatim>\<open>p\<close> is negative, which a program may never reach. The first
  argument bounds the number of turns; when it is used up, the result is \<open>None\<close>.
\<close>

primrec run :: "nat \<Rightarrow> raise \<Rightarrow> vm \<Rightarrow> vm option" where
  "run 0 err st = None"
| "run (Suc n) err st =
     do { st1 \<leftarrow> step err st;
          if 0 \<le> sint (p st1) then run n err st1 else Some st1 }"

definition exec :: "nat \<Rightarrow> raise \<Rightarrow> 16 word \<Rightarrow> vm \<Rightarrow> vm option" where
  "exec n err address st =
     do { st1 \<leftarrow> rpush err (- 1) (st\<lparr>r := - 1\<rparr>);
          run n err (st1\<lparr>p := address\<rparr>) }"

subsection \<open>Setup and the main loop\<close>

text \<open>
  \<^verbatim>\<open>setup\<close> of the source (the name is a keyword here). Binding the instructions is the
  definition of \<open>instructions\<close> above.
\<close>

definition setup_board :: "raise \<Rightarrow> vm \<Rightarrow> vm option" where
  "setup_board err st =
     do { st1 \<leftarrow> resetBoard err st;
          let st2 = st1\<lparr>isrs := (\<lambda>i. if 0 \<le> i \<and> i < MAX_INTERRUPTS then - 1 else isrs st1 i)\<rparr>;
          event err BOOT_EVENT_ID 0 st2 }"

text \<open>
  The payload loop of \<^verbatim>\<open>loop\<close>: \<open>len\<close> bytes remain to be read. The source waits for each
  byte; when the input of the model is used up, the wait does not end.
\<close>

primrec loop_payload :: "raise \<Rightarrow> nat \<Rightarrow> vm \<Rightarrow> vm option" where
  "loop_payload err 0 st = Some st"
| "loop_payload err (Suc len) st =
     (case serial_in st of
        [] \<Rightarrow> None
      | b # rest \<Rightarrow>
          do { st1 \<leftarrow> memset err (here st) b (st\<lparr>here := here st + 1, serial_in := rest\<rparr>);
               loop_payload err len st1 })"

definition loop :: "nat \<Rightarrow> raise \<Rightarrow> vm \<Rightarrow> vm option" where
  "loop n err st =
     do { st1 \<leftarrow>
            (case serial_in st of
               [] \<Rightarrow> Some st
             | b # rest \<Rightarrow>
                 do { let isExec = (b AND 0x80 = 0x80);
                      let len = b AND 0x7f;
                      st2 \<leftarrow> loop_payload err (unat len) (st\<lparr>serial_in := rest\<rparr>);
                      if isExec
                      then do { st3 \<leftarrow> memset err (here st2) 0 (st2\<lparr>here := here st2 + 1\<rparr>);
                                let st4 = st3\<lparr>here := last_addr st3\<rparr>;
                                exec n err (here st4) st4 }
                      else Some (st2\<lparr>last_addr := here st2\<rparr>) });
          if 0 \<le> sint (loopword st1)
          then do { st2 \<leftarrow> exec n err (loopword st1) st1;
                    Some (st2\<lparr>loopIterations := loopIterations st2 + 1\<rparr>) }
          else Some st1 }"

section \<open>The earlier source\<close>

text \<open>
  \<^verbatim>\<open>Firmware/libraries/Brief/Brief.cpp\<close> receives and sends its frames through
  \<^verbatim>\<open>ReflectaFramesSerial.cpp\<close>. Its state has, beside the globals above, the pointer
  \<^verbatim>\<open>locals\<close>. The functions below are the ones that differ from the later source and that
  the specification describes; their names have the prefix \<open>fw\<close>.
\<close>

record fvm = vm +
  locals :: "16 word"

type_synonym fraise = "8 word \<Rightarrow> fvm \<Rightarrow> fvm option"

definition fw_mem :: "fraise \<Rightarrow> 16 word \<Rightarrow> fvm \<Rightarrow> (8 word \<times> fvm) option" where
  "fw_mem err address st =
     (if sint address < 0 \<or> MEM_SIZE \<le> sint address
      then do { st' \<leftarrow> err VM_ERROR_OUT_OF_MEMORY st; Some (0, st') }
      else Some (memory st (sint address), st))"

definition fw_memset :: "fraise \<Rightarrow> 16 word \<Rightarrow> 8 word \<Rightarrow> fvm \<Rightarrow> fvm option" where
  "fw_memset err address val st =
     (if MEM_SIZE \<le> sint address
      then err VM_ERROR_OUT_OF_MEMORY st
      else Some (st\<lparr>memory := (memory st)(sint address := val)\<rparr>))"

text \<open>Here the stack checks empty the stack before they report.\<close>

definition fw_push :: "fraise \<Rightarrow> 16 word \<Rightarrow> fvm \<Rightarrow> fvm option" where
  "fw_push err x st =
     (if DATA_STACK_SIZE \<le> s st
      then err VM_ERROR_DATA_STACK_OVERFLOW (st\<lparr>s := - 1\<rparr>)
      else Some (st\<lparr>s := s st + 1, dstack := (dstack st)(s st + 1 := x)\<rparr>))"

definition fw_pop :: "fraise \<Rightarrow> fvm \<Rightarrow> (16 word \<times> fvm) option" where
  "fw_pop err st =
     (if s st < 0
      then do { st' \<leftarrow> err VM_ERROR_DATA_STACK_UNDERFLOW (st\<lparr>s := - 1\<rparr>); Some (indet st', st') }
      else Some (dstack st (s st), st\<lparr>s := s st - 1\<rparr>))"

definition fw_lit8 :: "fraise \<Rightarrow> fvm \<Rightarrow> fvm option" where
  "fw_lit8 err st =
     do { let a = p st;
          (b, st1) \<leftarrow> fw_mem err a (st\<lparr>p := a + 1\<rparr>);
          fw_push err (scast b) st1 }"

text \<open>
  \<^verbatim>\<open>frameReceived\<close> is called by Reflecta when a frame has arrived. Reflecta has written
  the bytes of the frame from \<^verbatim>\<open>memory + here\<close> on (the buffer that \<^verbatim>\<open>frameAllocation\<close>
  handed out): the payload, the flag byte and the checksum. It passes the count of payload
  and flag as \<^verbatim>\<open>frameLength\<close>. The interpreter of the earlier source is not modelled; its
  entry point \<^verbatim>\<open>exec\<close> is the second argument.
\<close>

definition fw_frameReceived ::
  "fraise \<Rightarrow> (16 word \<Rightarrow> fvm \<Rightarrow> fvm option) \<Rightarrow> 8 word \<Rightarrow> 8 word \<Rightarrow> fvm \<Rightarrow> fvm option" where
  "fw_frameReceived err exec' sequence frameLength st =
     do { let st1 = st\<lparr>last_addr := here st\<rparr>;
          let st2 = st1\<lparr>here := here st1 + (ucast frameLength - 1)\<rparr>;
          let isExec = (memory st2 (sint (here st2)) = 0);
          st3 \<leftarrow> (if isExec then fw_memset err (here st2) 0 (st2\<lparr>here := here st2 + 1\<rparr>)
                  else Some st2);
          if sint (locals st3) < sint (here st3) then err VM_ERROR_OUT_OF_MEMORY st3
          else if isExec then (let st4 = st3\<lparr>here := last_addr st3\<rparr> in exec' (here st4) st4)
          else Some st3 }"

section \<open>Concrete states\<close>

text \<open>
  The statics as the C++ runtime initialises them (zeroed arrays, \<^verbatim>\<open>eventBuffer = MEM_SIZE\<close>,
  \<^verbatim>\<open>loopword = -1\<close>), with both stacks empty as \<^verbatim>\<open>clr\<close> and \<^verbatim>\<open>exec\<close> make them.
\<close>

definition fresh :: vm where
  "fresh = \<lparr>memory = (\<lambda>_. 0), dstack = (\<lambda>_. 0), s = - 1, rstack = (\<lambda>_. 0), r = - 1, p = 0,
     here = 0, last_addr = 0, eventBuffer = 512, loopword = - 1, loopIterations = 0,
     isrs = (\<lambda>_. 0), serial_in = [], serial_out = [], hw_calls = [], hw_in = (\<lambda>_. 0),
     indet = 0\<rparr>"

definition fw_fresh :: fvm where
  "fw_fresh = vm.extend fresh \<lparr>locals = 512\<rparr>"

text \<open>The fresh state with a fragment of bytecode at the bottom of the dictionary.\<close>

definition code_at :: "8 word list \<Rightarrow> vm" where
  "code_at bs =
     fresh\<lparr>memory := (\<lambda>i. if 0 \<le> i \<and> i < int (length bs) then bs ! nat i else 0)\<rparr>"

definition fw_code_at :: "8 word list \<Rightarrow> fvm" where
  "fw_code_at bs =
     fw_fresh\<lparr>memory := (\<lambda>i. if 0 \<le> i \<and> i < int (length bs) then bs ! nat i else 0)\<rparr>"

section \<open>Notions used in the statements\<close>

text \<open>The memory after the bytes \<open>bs\<close> have been stored from offset \<open>a\<close> on.\<close>

primrec stored :: "(int \<Rightarrow> 8 word) \<Rightarrow> int \<Rightarrow> 8 word list \<Rightarrow> (int \<Rightarrow> 8 word)" where
  "stored m a [] = m"
| "stored m a (b # bs) = stored (m(a := b)) (a + 1) bs"


text \<open>The invariant of the dictionary cursors that the specification states.\<close>

definition dict_inv :: "vm \<Rightarrow> bool" where
  "dict_inv st \<longleftrightarrow>
     0 \<le> sint (last_addr st) \<and> sint (last_addr st) \<le> sint (here st) \<and> sint (here st) \<le> MEM_SIZE"

text \<open>An error routine that, when it returns, has left both cursors as they were.\<close>

definition keeps_cursors :: "raise \<Rightarrow> bool" where
  "keeps_cursors err \<longleftrightarrow>
     (\<forall>c st st'. err c st = Some st' \<longrightarrow> here st' = here st \<and> last_addr st' = last_addr st)"

text \<open>An instruction that, when it returns, has left both cursors as they were.\<close>

definition frames :: "prim \<Rightarrow> bool" where
  "frames f \<longleftrightarrow>
     (\<forall>err st st'. keeps_cursors err \<longrightarrow> f err st = Some st' \<longrightarrow>
        here st' = here st \<and> last_addr st' = last_addr st)"

section \<open>Basic facts\<close>

lemma MEM_SIZE_bound: "MEM_SIZE \<le> 32767"
  by (simp add: MEM_SIZE_def)

lemma sint_add_small:
  fixes a b :: "16 word"
  assumes "- 32768 \<le> sint a + sint b" "sint a + sint b \<le> 32767"
  shows "sint (a + b) = sint a + sint b"
  using assms by (simp add: sint_word_ariths signed_take_bit_int_eq_self)

lemma sint_of_nat_small:
  assumes "k \<le> 32767"
  shows "sint (of_nat k :: 16 word) = int k"
  using assms by (simp add: signed_of_nat signed_take_bit_int_eq_self)

lemma sint_add_nat:
  fixes a :: "16 word"
  assumes "0 \<le> sint a" "sint a + int k \<le> 32767"
  shows "sint (a + of_nat k) = sint a + int k"
proof -
  have k: "sint (of_nat k :: 16 word) = int k"
    using assms by (intro sint_of_nat_small) linarith
  show ?thesis
    using assms by (simp add: sint_add_small k)
qed

lemma ucast_ucast_byte: "(ucast (ucast (b :: 8 word) :: 16 word) :: 8 word) = b"
  by (rule bit_word_eqI) (auto simp: bit_simps)


text \<open>The bounds checks, when they pass.\<close>

lemma memget_ok:
  "0 \<le> sint a \<Longrightarrow> sint a < MEM_SIZE \<Longrightarrow> memget err a st = Some (memory st (sint a), st)"
  by (simp add: memget_def)

lemma memset_ok:
  "sint a < MEM_SIZE \<Longrightarrow> memset err a v st = Some (st\<lparr>memory := (memory st)(sint a := v)\<rparr>)"
  by (simp add: memset_def)

text \<open>
  \<^verbatim>\<open>memset\<close> has no test of a negative address, which \<^verbatim>\<open>memget\<close> has: a store to
  address -1 reports nothing and writes the cell before the array.
\<close>

lemma memset_negative_address:
  "memset err (- 1) 7 fresh = Some (fresh\<lparr>memory := (memory fresh)(- 1 := 7)\<rparr>)"
  by (simp add: memset_def MEM_SIZE_def)

lemma push_ok:
  "s st < DATA_STACK_SIZE \<Longrightarrow>
   push err x st = Some (st\<lparr>s := s st + 1, dstack := (dstack st)(s st + 1 := x)\<rparr>)"
  by (simp add: push_def)

lemma pop_ok:
  "0 \<le> s st \<Longrightarrow> pop err st = Some (dstack st (s st), st\<lparr>s := s st - 1\<rparr>)"
  by (simp add: pop_def)

text \<open>The footer sends the bytes of the scratch area between \<^verbatim>\<open>here\<close> and the cursor.\<close>

lemma eventFooter_loop_ok:
  assumes "0 \<le> sint (here st)" and "sint (here st) + int j + int k \<le> MEM_SIZE"
  shows "eventFooter_loop err k (of_nat j) st =
         Some (st\<lparr>serial_out := serial_out st @ map (\<lambda>i. memory st (sint (here st) + int i)) [j..<j + k]\<rparr>)"
  using assms
proof (induction k arbitrary: j st)
  case 0
  then show ?case by simp
next
  case (Suc k)
  have a: "sint (here st + of_nat j) = sint (here st) + int j"
    using Suc.prems MEM_SIZE_bound by (intro sint_add_nat) auto
  have g: "memget err (here st + of_nat j) st = Some (memory st (sint (here st) + int j), st)"
    using Suc.prems by (simp add: memget_ok a)
  let ?st = "st\<lparr>serial_out := serial_out st @ [memory st (sint (here st) + int j)]\<rparr>"
  have ih: "eventFooter_loop err k (of_nat (Suc j)) ?st =
         Some (?st\<lparr>serial_out := serial_out ?st @ map (\<lambda>i. memory ?st (sint (here ?st) + int i)) [Suc j..<Suc j + k]\<rparr>)"
    using Suc.prems by (intro Suc.IH) auto
  have l: "[j..<j + Suc k] = j # [Suc j..<Suc j + k]"
    by (simp add: upt_rec)
  have "eventFooter_loop err (Suc k) (of_nat j) st = eventFooter_loop err k (of_nat (Suc j)) ?st"
    by (simp add: g del: of_nat_Suc) (simp add: add.commute)
  also note ih
  finally show ?case
    by (simp only: l) simp
qed

lemma eventFooter_ok:
  assumes "0 \<le> sint (here st)" and "eventBuffer st = here st + of_nat n" and "n \<le> 255"
    and "sint (here st) + int n \<le> MEM_SIZE"
  shows "eventFooter err st =
         Some (st\<lparr>serial_out := serial_out st @ (of_nat n - 1) #
                 map (\<lambda>i. memory st (sint (here st) + int i)) [0..<n]\<rparr>)"
proof -
  have len: "(ucast (eventBuffer st - here st) :: 8 word) = of_nat n"
    using assms(2,3) by (simp add: unsigned_of_nat take_bit_nat_eq_self)
  have un: "unat (of_nat n :: 8 word) = n"
    using assms(3) by (simp add: unsigned_of_nat take_bit_nat_eq_self)
  let ?st = "st\<lparr>serial_out := serial_out st @ [of_nat n - 1]\<rparr>"
  have "eventFooter_loop err n (of_nat 0) ?st =
        Some (?st\<lparr>serial_out := serial_out ?st @ map (\<lambda>i. memory ?st (sint (here ?st) + int i)) [0..<0 + n]\<rparr>)"
    using assms by (intro eventFooter_loop_ok) auto
  then show ?thesis
    by (simp add: eventFooter_def len un)
qed

lemma eventFooter_len:
  assumes "0 \<le> sint (here st)"
    and "sint (here st) + int (unat (ucast (eventBuffer st - here st) :: 8 word)) \<le> MEM_SIZE"
  shows "eventFooter err st =
         Some (st\<lparr>serial_out := serial_out st @ ((ucast (eventBuffer st - here st) :: 8 word) - 1) #
                 map (\<lambda>i. memory st (sint (here st) + int i))
                   [0..<unat (ucast (eventBuffer st - here st) :: 8 word)]\<rparr>)"
proof -
  let ?len = "ucast (eventBuffer st - here st) :: 8 word"
  let ?st = "st\<lparr>serial_out := serial_out st @ [?len - 1]\<rparr>"
  have "eventFooter_loop err (unat ?len) (of_nat 0) ?st =
        Some (?st\<lparr>serial_out := serial_out ?st @ map (\<lambda>i. memory ?st (sint (here ?st) + int i)) [0..<0 + unat ?len]\<rparr>)"
    using assms by (intro eventFooter_loop_ok) auto
  then show ?thesis
    by (simp add: eventFooter_def Let_def)
qed

text \<open>With the cursor at \<^verbatim>\<open>MEM_SIZE\<close>, the bytes that the footer sends lie inside the array.\<close>

lemma footer_len_at_end:
  fixes h e :: "16 word"
  assumes "0 \<le> sint h" and "sint h \<le> MEM_SIZE" and "sint e = MEM_SIZE"
  shows "sint h + int (unat (ucast (e - h) :: 8 word)) \<le> MEM_SIZE"
proof -
  have d: "sint (e - h) = sint e - sint h"
    using assms MEM_SIZE_bound by (simp add: sint_word_ariths signed_take_bit_int_eq_self)
  have "uint (e - h) = take_bit 16 (sint (e - h))"
    by (simp add: uint_sint)
  also have "\<dots> = MEM_SIZE - sint h"
    using assms MEM_SIZE_bound by (simp add: d take_bit_int_eq_self)
  finally have u: "uint (e - h) = MEM_SIZE - sint h" .
  have "unat (ucast (e - h) :: 8 word) = take_bit 8 (unat (e - h))"
    by (simp add: unsigned_ucast_eq)
  also have "\<dots> \<le> unat (e - h)"
    by (rule take_bit_nat_less_eq_self)
  finally have "int (unat (ucast (e - h) :: 8 word)) \<le> int (unat (e - h))"
    by (simp only: of_nat_le_iff)
  then show ?thesis
    using u by simp
qed

lemma sint_here_offsets:
  assumes "0 \<le> sint (h :: 16 word)" and "sint h + 3 \<le> MEM_SIZE"
  shows "sint (h + 1) = sint h + 1" and "sint (h + 2) = sint h + 2"
    and "sint (1 + h) = sint h + 1" and "sint (2 + h) = sint h + 2"
proof -
  show "sint (h + 1) = sint h + 1"
    using assms MEM_SIZE_bound sint_add_nat [of h 1] by simp
  then show "sint (1 + h) = sint h + 1"
    by (simp add: add.commute)
  show "sint (h + 2) = sint h + 2"
    using assms MEM_SIZE_bound sint_add_nat [of h 2] by simp
  then show "sint (2 + h) = sint h + 2"
    by (simp add: add.commute)
qed

lemma upt_3: "[0..<3] = [0, 1, 2]"
  by (simp add: upt_rec)


text \<open>
  An error report that finds room on the data stack and in the scratch area: the state it
  leaves.
\<close>

lemma error_ok:
  assumes "- 1 \<le> s st" and "s st + 1 < DATA_STACK_SIZE"
    and "0 \<le> sint (here st)" and "sint (here st) + 3 \<le> MEM_SIZE"
  shows "error (Suc n) code st =
         Some (st\<lparr>dstack := (dstack st)(s st + 1 := 0xFE),
                  memory := (memory st)(sint (here st) := code, sint (here st) + 1 := 0,
                                        sint (here st) + 2 := 0xFE),
                  eventBuffer := here st + 3,
                  serial_out := serial_out st @ [2, code, 0, 0xFE]\<rparr>)"
  using assms
  by (simp add: event_def push_ok eventHeader_def pop_ok memset_ok eventBody16_def
      sint_here_offsets [OF assms(3,4)] ucast_ucast_byte eventFooter_ok [where n = 3] upt_3
      VM_EVENT_ID_def Let_def)

text \<open>Once the data stack pointer is past the check of \<^verbatim>\<open>push\<close>, no error report returns.\<close>

lemma error_overfull:
  "DATA_STACK_SIZE \<le> s st \<Longrightarrow> error n code st = None"
  by (induction n arbitrary: code) (simp_all add: event_def push_def)

text \<open>Decoding.\<close>

lemma instructions_lit8: "instructions (Suc 0) = Some lit8"
  by (simp add: instructions_def instructions_table_def)

lemma instructions_drop: "instructions 32 = Some drop_op"
  by (simp add: instructions_def instructions_table_def)

lemma call_target:
  "(push_bit 8 (ucast (b :: 8 word) :: 16 word) AND 0x7F00) = push_bit 8 (ucast (b AND 0x7F))"
proof -
  have "(0x7F00 :: 16 word) = push_bit 8 0x7F"
    by simp
  moreover have "(ucast (b AND 0x7F) :: 16 word) = ucast b AND 0x7F"
    by (simp add: unsigned_and_eq)
  ultimately show ?thesis
    by (simp only: push_bit_and)
qed

lemma top_bit_ucast:
  "((ucast (b :: 8 word) :: 16 word) AND 0x80 = 0) = (b AND 0x80 = 0)"
proof -
  have "(ucast (b AND 0x80) :: 16 word) = ucast b AND 0x80"
    by (simp add: unsigned_and_eq)
  moreover have "((ucast (b AND 0x80) :: 16 word) = 0) = (b AND 0x80 = 0)"
    using ucast_ucast_byte [of "b AND 0x80"] by auto
  ultimately show ?thesis
    by simp
qed

text \<open>The intake of a frame that fits into the dictionary.\<close>

lemma loop_payload_ok:
  assumes "0 \<le> sint (here st)" and "sint (here st) + int (length bs) \<le> MEM_SIZE"
    and "serial_in st = bs @ rest"
  shows "loop_payload err (length bs) st =
         Some (st\<lparr>here := here st + of_nat (length bs), serial_in := rest,
                  memory := stored (memory st) (sint (here st)) bs\<rparr>)"
  using assms
proof (induction bs arbitrary: st)
  case Nil
  then show ?case by simp
next
  case (Cons b bs)
  have h1: "sint (here st + 1) = sint (here st) + 1"
    using Cons.prems MEM_SIZE_bound sint_add_nat [of "here st" 1] by simp
  let ?st = "st\<lparr>here := here st + 1, serial_in := bs @ rest,
                 memory := (memory st)(sint (here st) := b)\<rparr>"
  have m: "memset err (here st) b (st\<lparr>here := here st + 1, serial_in := bs @ rest\<rparr>) = Some ?st"
    using Cons.prems by (simp add: memset_ok)
  have ih: "loop_payload err (length bs) ?st =
         Some (?st\<lparr>here := here ?st + of_nat (length bs), serial_in := rest,
                  memory := stored (memory ?st) (sint (here ?st)) bs\<rparr>)"
    using Cons.prems h1 by (intro Cons.IH) auto
  show ?case
    using Cons.prems(3) by (simp add: m ih h1 add.assoc del: of_nat_Suc) (simp add: add.commute)
qed

lemma loop_definition_frame:
  assumes "serial_in st = b # bs @ rest" and "b AND 0x80 \<noteq> 0x80"
    and "unat (b AND 0x7f) = length bs"
    and "0 \<le> sint (here st)" and "sint (here st) + int (length bs) \<le> MEM_SIZE"
    and "sint (loopword st) < 0"
  shows "loop n err st =
        Some (st\<lparr>here := here st + of_nat (length bs), serial_in := rest,
                 memory := stored (memory st) (sint (here st)) bs,
                 last_addr := here st + of_nat (length bs)\<rparr>)"
proof -
  let ?st = "st\<lparr>serial_in := bs @ rest\<rparr>"
  have "loop_payload err (length bs) ?st =
         Some (?st\<lparr>here := here ?st + of_nat (length bs), serial_in := rest,
                  memory := stored (memory ?st) (sint (here ?st)) bs\<rparr>)"
    using assms by (intro loop_payload_ok) auto
  then show ?thesis
    using assms by (simp add: loop_def Let_def)
qed

subsection \<open>Which functions write the dictionary cursors\<close>

text \<open>
  Only \<^verbatim>\<open>forget\<close>, \<^verbatim>\<open>resetBoard\<close> and \<^verbatim>\<open>loop\<close> assign \<^verbatim>\<open>here\<close> or \<^verbatim>\<open>last\<close>. The other
  functions leave them alone, also when they report an error, since the error routine of
  every depth does.
\<close>

lemma kcD:
  "err c st = Some st' \<Longrightarrow> keeps_cursors err \<Longrightarrow> here st' = here st \<and> last_addr st' = last_addr st"
  by (simp add: keeps_cursors_def)

lemma kc_memget:
  "memget err a st = Some (b, st') \<Longrightarrow> keeps_cursors err \<Longrightarrow>
   here st' = here st \<and> last_addr st' = last_addr st"
  by (auto simp: memget_def split: if_splits bind_splits dest!: kcD)

lemma kc_memset:
  "memset err a v st = Some st' \<Longrightarrow> keeps_cursors err \<Longrightarrow>
   here st' = here st \<and> last_addr st' = last_addr st"
  by (auto simp: memset_def split: if_splits dest!: kcD)

lemma kc_push:
  "push err x st = Some st' \<Longrightarrow> keeps_cursors err \<Longrightarrow>
   here st' = here st \<and> last_addr st' = last_addr st"
  by (auto simp: push_def split: if_splits dest!: kcD)

lemma kc_pop:
  "pop err st = Some (x, st') \<Longrightarrow> keeps_cursors err \<Longrightarrow>
   here st' = here st \<and> last_addr st' = last_addr st"
  by (auto simp: pop_def split: if_splits bind_splits dest!: kcD)

lemma kc_rpush:
  "rpush err x st = Some st' \<Longrightarrow> keeps_cursors err \<Longrightarrow>
   here st' = here st \<and> last_addr st' = last_addr st"
  by (auto simp: rpush_def split: if_splits dest!: kcD)

lemma kc_rpop:
  "rpop err st = Some (x, st') \<Longrightarrow> keeps_cursors err \<Longrightarrow>
   here st' = here st \<and> last_addr st' = last_addr st"
  by (auto simp: rpop_def split: if_splits bind_splits dest!: kcD)

lemmas kc_base = kc_memget kc_memset kc_push kc_pop kc_rpush kc_rpop

lemma kc_eventHeader:
  "eventHeader err st = Some st' \<Longrightarrow> keeps_cursors err \<Longrightarrow>
   here st' = here st \<and> last_addr st' = last_addr st"
  by (auto simp: eventHeader_def Let_def split: bind_splits dest!: kc_base)

lemma kc_eventBody8:
  "eventBody8 err st = Some st' \<Longrightarrow> keeps_cursors err \<Longrightarrow>
   here st' = here st \<and> last_addr st' = last_addr st"
  by (auto simp: eventBody8_def Let_def split: bind_splits dest!: kc_base)

lemma kc_eventBody16:
  "eventBody16 err st = Some st' \<Longrightarrow> keeps_cursors err \<Longrightarrow>
   here st' = here st \<and> last_addr st' = last_addr st"
  by (auto simp: eventBody16_def Let_def split: bind_splits dest!: kc_base)

lemma kc_eventFooter_loop:
  "eventFooter_loop err k i st = Some st' \<Longrightarrow> keeps_cursors err \<Longrightarrow>
   here st' = here st \<and> last_addr st' = last_addr st"
proof (induction k arbitrary: i st)
  case 0
  then show ?case by simp
next
  case (Suc k)
  then show ?case
    by (auto split: bind_splits dest!: kc_memget)
qed

lemma kc_eventFooter:
  "eventFooter err st = Some st' \<Longrightarrow> keeps_cursors err \<Longrightarrow>
   here st' = here st \<and> last_addr st' = last_addr st"
  by (auto simp: eventFooter_def Let_def dest!: kc_eventFooter_loop)

lemmas kc_events = kc_eventHeader kc_eventBody8 kc_eventBody16 kc_eventFooter

lemma kc_event:
  "event err eid val st = Some st' \<Longrightarrow> keeps_cursors err \<Longrightarrow>
   here st' = here st \<and> last_addr st' = last_addr st"
  by (auto simp: event_def split: bind_splits if_splits dest!: kc_base kc_events)

lemma keeps_cursors_error: "keeps_cursors (error n)"
proof (induction n)
  case 0
  show ?case by (simp add: keeps_cursors_def)
next
  case (Suc n)
  show ?case
    unfolding keeps_cursors_def
  proof (intro allI impI)
    fix c st st'
    assume "error (Suc n) c st = Some st'"
    then have "event (error n) c VM_EVENT_ID st = Some st'"
      by simp
    then show "here st' = here st \<and> last_addr st' = last_addr st"
      using Suc by (rule kc_event)
  qed
qed

lemma kc_mem16:
  "mem16 err a st = Some (v, st') \<Longrightarrow> keeps_cursors err \<Longrightarrow>
   here st' = here st \<and> last_addr st' = last_addr st"
  by (auto simp: mem16_def split: bind_splits dest!: kc_base)

lemma kc_roll_loop: "here (roll_loop k i st) = here st \<and> last_addr (roll_loop k i st) = last_addr st"
  by (induction k arbitrary: i st) simp_all

lemma kc_hw: "here (hw_do c st) = here st" "last_addr (hw_do c st) = last_addr st"
  "hw_ask c st = (v, st') \<Longrightarrow> here st' = here st \<and> last_addr st' = last_addr st"
  by (auto simp: hw_do_def hw_ask_def)

lemma frames_binary: "frames (binary f)"
  by (auto simp: frames_def binary_def split: bind_splits dest!: kc_base)

lemma frames_unary: "frames (unary f)"
  by (auto simp: frames_def unary_def)

lemma frames_alu:
  "frames add" "frames sub" "frames mul" "frames andb" "frames orb" "frames xorb" "frames shift"
  "frames eq" "frames neq" "frames gt" "frames geq" "frames lt" "frames leq"
  "frames notb" "frames neg" "frames inc" "frames dec"
  by (simp_all add: add_def sub_def mul_def andb_def orb_def xorb_def shift_def eq_def neq_def
      gt_def geq_def lt_def leq_def notb_def neg_def inc_def dec_def frames_binary frames_unary)

lemma frames_events:
  "frames eventHeader" "frames eventBody8" "frames eventBody16" "frames eventFooter"
  by (auto simp: frames_def dest!: kc_events)

lemma frames_memory:
  "frames ret" "frames eventOp" "frames fetch8" "frames store8" "frames fetch16"
  "frames store16" "frames lit8" "frames lit16"
  by (auto simp: frames_def Let_def kc_roll_loop kc_hw
      ret_def eventOp_def fetch8_def store8_def fetch16_def store16_def lit8_def lit16_def
      split: bind_splits if_splits prod.splits dest!: kc_base kc_mem16 kc_event kc_hw(3))

lemma frames_stack:
  "frames div_op" "frames mod_op" "frames drop_op" "frames dup" "frames swap" "frames pick"
  "frames roll" "frames clr" "frames pushr" "frames popr" "frames peekr"
  by (auto simp: frames_def Let_def kc_roll_loop kc_hw
      div_op_def mod_op_def drop_op_def dup_def swap_def pick_def roll_def clr_def
      pushr_def popr_def peekr_def
      split: bind_splits if_splits prod.splits dest!: kc_base kc_mem16 kc_event kc_hw(3))

lemma frames_control:
  "frames call" "frames quote" "frames choice" "frames chooseIf" "frames next_op"
  "frames nop" "frames loopTicks" "frames setLoop" "frames stopLoop"
  by (auto simp: frames_def Let_def kc_roll_loop kc_hw
      call_def quote_def choice_def chooseIf_def next_op_def nop_def loopTicks_def
      setLoop_def stopLoop_def
      split: bind_splits if_splits prod.splits dest!: kc_base kc_mem16 kc_event kc_hw(3))

lemma frames_platform:
  "frames pinMode" "frames digitalRead" "frames digitalWrite" "frames analogRead"
  "frames analogWrite" "frames attachISR" "frames detachISR" "frames milliseconds"
  "frames pulseIn"
  by (auto simp: frames_def Let_def kc_roll_loop kc_hw
      pinMode_def digitalRead_def digitalWrite_def analogRead_def
      analogWrite_def attachISR_def detachISR_def milliseconds_def pulseIn_def
      split: bind_splits if_splits prod.splits dest!: kc_base kc_mem16 kc_event kc_hw(3))

lemmas frames_all = frames_alu frames_events frames_memory frames_stack frames_control
  frames_platform

lemma frames_table: "list_all frames (instructions_table[41 := nop, 48 := nop])"
  by (simp add: instructions_table_def frames_all)

lemma instructions_frame:
  assumes "instructions i = Some f" and "i \<noteq> 41" and "i \<noteq> 48"
    and "keeps_cursors err" and "f err st = Some st'"
  shows "here st' = here st \<and> last_addr st' = last_addr st"
proof -
  have i: "i < length instructions_table" and f: "f = instructions_table ! i"
    using assms(1) by (auto simp: instructions_def split: if_splits)
  have "f = (instructions_table[41 := nop, 48 := nop]) ! i"
    using assms(2,3) f by simp
  moreover have "i < length (instructions_table[41 := nop, 48 := nop])"
    using i by simp
  ultimately have "frames f"
    using frames_table by (simp add: list_all_length)
  then show ?thesis
    using assms(4,5) by (auto simp: frames_def)
qed

text \<open>One turn of the interpreter on anything but \<^verbatim>\<open>forget\<close> (41) and \<^verbatim>\<open>resetBoard\<close> (48).\<close>

lemma unat_ucast_byte: "unat (ucast (b :: 8 word) :: 16 word) = unat b"
proof -
  have "unat b < 2 ^ 8"
    using unsigned_less [of b] by simp
  then have "unat b < 2 ^ 16"
    by simp
  then show ?thesis
    by (simp add: unsigned_ucast_eq take_bit_nat_eq_self)
qed

lemma unat_byte_eq: "unat (b :: 8 word) = n \<Longrightarrow> b = of_nat n"
proof -
  assume "unat b = n"
  moreover have "b = of_nat (unat b)"
    by simp
  ultimately show ?thesis
    by simp
qed

lemma step_frame:
  assumes "memget err (p st) (st\<lparr>p := p st + 1\<rparr>) = Some (b, st1)" and "b \<noteq> 41" and "b \<noteq> 48"
    and "keeps_cursors err" and "step err st = Some st'"
  shows "here st' = here st \<and> last_addr st' = last_addr st"
proof -
  have c1: "here st1 = here st \<and> last_addr st1 = last_addr st"
    using kc_memget [OF assms(1,4)] by simp
  show ?thesis
  proof (cases "(ucast b :: 16 word) AND 0x80 = 0")
    case True
    then obtain f where f: "instructions (unat (ucast b :: 16 word)) = Some f" and r: "f err st1 = Some st'"
      using assms(1,5) by (auto simp: step_def Let_def split: option.splits)
    have "unat b \<noteq> 41" "unat b \<noteq> 48"
      using assms(2,3) unat_byte_eq [of b 41] unat_byte_eq [of b 48] by auto
    then show ?thesis
      using instructions_frame [OF f _ _ assms(4) r] c1 by (simp add: unat_ucast_byte)
  next
    case False
    then show ?thesis
      using assms(1,4,5) c1
      by (auto simp: step_def Let_def split: bind_splits if_splits dest!: kc_base)
  qed
qed

section \<open>The claims\<close>

text \<open>
  C1. For every VM error raised, the VM emits an event whose id byte is \<^verbatim>\<open>VM_EVENT_ID\<close>
  (0xFE) and whose body is the error code; a data-stack underflow gives an event with id
  0xFE and body byte 2, that is the bytes 1, 0xFE, 2. The code does not do this:
  \<^verbatim>\<open>error(code)\<close> calls \<^verbatim>\<open>event(code, VM_EVENT_ID)\<close> with the two arguments exchanged, so the
  code is sent as the id and 0xFE as the value. Popping the empty stack of the fresh state
  sends the bytes 2, 2, 0x00, 0xFE, and in that state the report of any code sends 2, code,
  0x00, 0xFE, at every nesting depth allowed to the error routine.
\<close>

theorem underflow_event_bytes:
  "(\<exists>v st'. pop (error (Suc n)) fresh = Some (v, st') \<and> serial_out st' = [2, 2, 0x00, 0xFE]) \<and>
   (\<exists>st'. error (Suc n) code fresh = Some st' \<and> serial_out st' = [2, code, 0x00, 0xFE])"
proof -
  have "error (Suc n) code fresh =
        Some (fresh\<lparr>dstack := (dstack fresh)(s fresh + 1 := 0xFE),
                memory := (memory fresh)(sint (here fresh) := code,
                            sint (here fresh) + 1 := 0, sint (here fresh) + 2 := 0xFE),
                eventBuffer := here fresh + 3,
                serial_out := serial_out fresh @ [2, code, 0, 0xFE]\<rparr>)"
    by (rule error_ok) (simp_all add: fresh_def DATA_STACK_SIZE_def MEM_SIZE_def)
  then have any: "\<exists>st'. error (Suc n) code fresh = Some st' \<and> serial_out st' = [2, code, 0x00, 0xFE]"
    by (simp add: fresh_def del: error.simps)
  have "error (Suc n) VM_ERROR_DATA_STACK_UNDERFLOW fresh =
        Some (fresh\<lparr>dstack := (dstack fresh)(s fresh + 1 := 0xFE),
                memory := (memory fresh)(sint (here fresh) := VM_ERROR_DATA_STACK_UNDERFLOW,
                            sint (here fresh) + 1 := 0, sint (here fresh) + 2 := 0xFE),
                eventBuffer := here fresh + 3,
                serial_out := serial_out fresh @ [2, VM_ERROR_DATA_STACK_UNDERFLOW, 0, 0xFE]\<rparr>)"
    by (rule error_ok) (simp_all add: fresh_def DATA_STACK_SIZE_def MEM_SIZE_def)
  then have "\<exists>v st'. pop (error (Suc n)) fresh = Some (v, st') \<and> serial_out st' = [2, 2, 0x00, 0xFE]"
    by (simp add: pop_def fresh_def VM_ERROR_DATA_STACK_UNDERFLOW_def)
  then show ?thesis
    using any by (rule conjI)
qed

text \<open>
  C2. A byte fetched with the top bit set starts a two-byte call to the 15-bit address
  \<open>((b0 & 0x7F) << 8) | b1\<close>. When the byte after the call is 0 (a \<^verbatim>\<open>ret\<close>), the step only
  sets \<^verbatim>\<open>p\<close> to the target and the return stack is as before. When it is not 0, the
  step also pushes the address of that byte, two past the first byte of the call (the
  source's \<^verbatim>\<open>p + 1\<close> after the fetch), given a free cell on the return stack. Here the
  three bytes lie inside the dictionary.
\<close>

theorem call_tail_elimination:
  fixes st :: vm
  defines "b0 \<equiv> memory st (sint (p st))"
    and "b1 \<equiv> memory st (sint (p st) + 1)"
    and "nx \<equiv> memory st (sint (p st) + 2)"
  defines "target \<equiv> push_bit 8 (ucast (b0 AND 0x7F)) OR ucast b1"
  assumes "0 \<le> sint (p st)" and "sint (p st) + 2 < MEM_SIZE" and "b0 AND 0x80 \<noteq> 0"
  shows "(nx = 0 \<longrightarrow> step err st = Some (st\<lparr>p := target\<rparr>)) \<and>
         (nx \<noteq> 0 \<and> - 1 \<le> r st \<and> r st + 1 < RETURN_STACK_SIZE \<longrightarrow>
            step err st = Some (st\<lparr>p := target, r := r st + 1,
                                    rstack := (rstack st)(r st + 1 := p st + 2)\<rparr>))"
proof -
  have o: "sint (p st + 1) = sint (p st) + 1" "sint (p st + 2) = sint (p st) + 2"
    using assms(5,6) sint_here_offsets [of "p st"] by simp_all
  have g0: "\<And>x. p x = p st + 1 \<Longrightarrow> memory x = memory st \<Longrightarrow> memget err (p st) x = Some (b0, x)"
    using assms(5,6) by (simp add: memget_ok b0_def)
  have g1: "\<And>x. memory x = memory st \<Longrightarrow> memget err (p st + 1) x = Some (b1, x)"
    using assms(5,6) by (simp add: memget_ok b1_def o)
  have g2: "\<And>x. memory x = memory st \<Longrightarrow> memget err (p st + 2) x = Some (nx, x)"
    using assms(5,6) by (simp add: memget_ok nx_def o)
  have two: "p st + 1 + 1 = p st + 2"
    by simp
  show ?thesis
    using assms(7)
    by (simp add: step_def g0 g1 g2 two top_bit_ucast call_target rpush_def target_def Let_def)
qed

theorem call_tail_elimination_witness:
  "step (error 0) (code_at [0x80, 0x00, 0x00]) = Some ((code_at [0x80, 0x00, 0x00])\<lparr>p := 0\<rparr>) \<and>
   step (error 0) (code_at [0x81, 0x05, 0x07]) =
     Some ((code_at [0x81, 0x05, 0x07])\<lparr>p := 0x0105, r := 0, rstack := (\<lambda>_. 0)(0 := 2)\<rparr>)"
  using call_tail_elimination [of "code_at [0x80, 0x00, 0x00]" "error 0"]
    call_tail_elimination [of "code_at [0x81, 0x05, 0x07]" "error 0"]
  by (simp add: code_at_def fresh_def MEM_SIZE_def RETURN_STACK_SIZE_def)

text \<open>
  C3 as stated: both \<^verbatim>\<open>load\<close> and \<^verbatim>\<open>store\<close> check \<open>0 \<le> addr < MEM_SIZE\<close>; on a violation
  they raise \<^verbatim>\<open>OUT_OF_MEMORY\<close>, \<^verbatim>\<open>load\<close> returns 0 and \<^verbatim>\<open>store\<close> leaves the memory array
  entirely unchanged. The last part fails: a store to address 512 is refused, but the
  report of the refusal is an event, and events are packed in the dictionary, from
  \<^verbatim>\<open>here\<close> on. Cell 0 of the array changes.
\<close>

theorem store_check_counterexample:
  "MEM_SIZE \<le> sint (512 :: 16 word) \<and>
   memset (error 1) 512 7 fresh =
     Some (fresh\<lparr>dstack := (dstack fresh)(0 := 0xFE),
             memory := (memory fresh)(0 := 4, 1 := 0, 2 := 0xFE),
             eventBuffer := 3, serial_out := [2, 4, 0x00, 0xFE]\<rparr>) \<and>
   ((memory fresh)(0 := 4, 1 := 0, 2 := 0xFE)) 0 \<noteq> memory fresh 0"
proof -
  have e: "error (Suc 0) VM_ERROR_OUT_OF_MEMORY fresh =
        Some (fresh\<lparr>dstack := (dstack fresh)(s fresh + 1 := 0xFE),
                memory := (memory fresh)(sint (here fresh) := VM_ERROR_OUT_OF_MEMORY,
                            sint (here fresh) + 1 := 0, sint (here fresh) + 2 := 0xFE),
                eventBuffer := here fresh + 3,
                serial_out := serial_out fresh @ [2, VM_ERROR_OUT_OF_MEMORY, 0, 0xFE]\<rparr>)"
    by (rule error_ok) (simp_all add: fresh_def DATA_STACK_SIZE_def MEM_SIZE_def)
  have m: "memset (error 1) 512 7 fresh = error (Suc 0) VM_ERROR_OUT_OF_MEMORY fresh"
    by (simp add: memset_def MEM_SIZE_def)
  show ?thesis
    unfolding m e by (simp add: fresh_def VM_ERROR_OUT_OF_MEMORY_def MEM_SIZE_def)
qed

text \<open>
  C3, amended. Inside \<open>0 \<le> addr < MEM_SIZE\<close>, \<^verbatim>\<open>load\<close> returns the cell without changing
  the state and \<^verbatim>\<open>store\<close> changes that cell only. \<^verbatim>\<open>load\<close> of an address below 0 or not
  below \<^verbatim>\<open>MEM_SIZE\<close>, and \<^verbatim>\<open>store\<close> to an address not below \<^verbatim>\<open>MEM_SIZE\<close>, call
  \<^verbatim>\<open>error(VM_ERROR_OUT_OF_MEMORY)\<close> and do nothing else of their own: \<^verbatim>\<open>load\<close> returns 0
  and \<^verbatim>\<open>store\<close> writes no cell at the address. The report is packed in the scratch area
  of the dictionary, from \<^verbatim>\<open>here\<close> on: given a free data-stack cell and scratch room, it
  returns after sending bytes, and it leaves every cell below \<^verbatim>\<open>here\<close>, both dictionary
  cursors and the depth of the data stack as they were. The statement is silent on a store to
  a negative address.
\<close>

theorem memory_bounds_checks:
  "(0 \<le> sint a \<and> sint a < MEM_SIZE \<longrightarrow>
      memget err a st = Some (memory st (sint a), st) \<and>
      memset err a v st = Some (st\<lparr>memory := (memory st)(sint a := v)\<rparr>)) \<and>
   (sint a < 0 \<or> MEM_SIZE \<le> sint a \<longrightarrow>
      memget (error n) a st = map_option (Pair 0) (error n VM_ERROR_OUT_OF_MEMORY st)) \<and>
   (MEM_SIZE \<le> sint a \<longrightarrow>
      memset (error n) a v st = error n VM_ERROR_OUT_OF_MEMORY st) \<and>
   (- 1 \<le> s st \<and> s st + 1 < DATA_STACK_SIZE \<and> 0 \<le> sint (here st) \<and>
    sint (here st) + 3 \<le> MEM_SIZE \<longrightarrow>
      (\<exists>st' bs. error (Suc n) VM_ERROR_OUT_OF_MEMORY st = Some st' \<and>
         serial_out st' = serial_out st @ bs \<and> bs \<noteq> [] \<and>
         (\<forall>x. x < sint (here st) \<longrightarrow> memory st' x = memory st x) \<and>
         here st' = here st \<and> last_addr st' = last_addr st \<and> s st' = s st))"
proof (intro conjI impI)
  assume "- 1 \<le> s st \<and> s st + 1 < DATA_STACK_SIZE \<and> 0 \<le> sint (here st) \<and>
    sint (here st) + 3 \<le> MEM_SIZE"
  then show "\<exists>st' bs. error (Suc n) VM_ERROR_OUT_OF_MEMORY st = Some st' \<and>
         serial_out st' = serial_out st @ bs \<and> bs \<noteq> [] \<and>
         (\<forall>x. x < sint (here st) \<longrightarrow> memory st' x = memory st x) \<and>
         here st' = here st \<and> last_addr st' = last_addr st \<and> s st' = s st"
    by (simp add: error_ok del: error.simps)
qed (cases "error n VM_ERROR_OUT_OF_MEMORY st"; auto simp: memget_def memset_def)+

theorem memory_bounds_checks_witness:
  "memget (error 0) 5 fresh = Some (0, fresh) \<and>
   memset (error 0) 5 7 fresh = Some (fresh\<lparr>memory := (memory fresh)(5 := 7)\<rparr>) \<and>
   memget (error (Suc 0)) (- 1) fresh =
     map_option (Pair 0) (error (Suc 0) VM_ERROR_OUT_OF_MEMORY fresh) \<and>
   memset (error (Suc 0)) 512 7 fresh = error (Suc 0) VM_ERROR_OUT_OF_MEMORY fresh \<and>
   (\<exists>st'. error (Suc 0) VM_ERROR_OUT_OF_MEMORY (fresh\<lparr>here := 5\<rparr>) = Some st' \<and>
      serial_out st' \<noteq> [] \<and> memory st' 4 = 0 \<and> here st' = 5)"
proof -
  have f: "s fresh = - 1" "here fresh = 0" "memory fresh 5 = 0" "serial_out fresh = []"
    "memory fresh 4 = 0"
    by (simp_all add: fresh_def)
  have "memget (error 0) 5 fresh = Some (0, fresh)"
    and "memset (error 0) 5 7 fresh = Some (fresh\<lparr>memory := (memory fresh)(5 := 7)\<rparr>)"
    using memory_bounds_checks [where a = 5 and st = fresh and err = "error 0" and v = 7]
    by (simp_all add: f MEM_SIZE_def)
  moreover have "memget (error (Suc 0)) (- 1) fresh =
      map_option (Pair 0) (error (Suc 0) VM_ERROR_OUT_OF_MEMORY fresh)"
    using memory_bounds_checks [where a = "- 1" and st = fresh and n = "Suc 0"]
    by (simp del: error.simps)
  moreover have "memset (error (Suc 0)) 512 7 fresh = error (Suc 0) VM_ERROR_OUT_OF_MEMORY fresh"
    using memory_bounds_checks [where a = 512 and st = fresh and v = 7 and n = "Suc 0"]
    by (simp add: MEM_SIZE_def del: error.simps)
  moreover have "\<exists>st'. error (Suc 0) VM_ERROR_OUT_OF_MEMORY (fresh\<lparr>here := 5\<rparr>) = Some st' \<and>
      serial_out st' \<noteq> [] \<and> memory st' 4 = 0 \<and> here st' = 5"
  proof -
    from memory_bounds_checks [where a = 512 and st = "fresh\<lparr>here := 5\<rparr>" and n = 0 and v = 0]
    obtain st' where e: "error (Suc 0) VM_ERROR_OUT_OF_MEMORY (fresh\<lparr>here := 5\<rparr>) = Some st'"
      "serial_out st' \<noteq> []" "\<forall>x<5. memory st' x = memory fresh x" "here st' = 5"
      by (auto simp: f MEM_SIZE_def DATA_STACK_SIZE_def simp del: error.simps)
    from e(3) have "memory st' 4 = 0"
      by (simp add: f)
    with e show ?thesis
      by blast
  qed
  ultimately show ?thesis
    by (simp del: error.simps)
qed

text \<open>
  C4. Pushing on a data stack that already holds \<^verbatim>\<open>DATA_STACK_SIZE\<close> elements emits
  \<^verbatim>\<open>DATA_STACK_OVERFLOW\<close>, writes nothing outside the array and leaves the depth at most
  \<^verbatim>\<open>DATA_STACK_SIZE\<close>. The code does not do this: the check of \<^verbatim>\<open>push\<close> compares the
  pointer to the top element with the end of the array, so with all cells in use the push
  goes through, stores \<open>x\<close> in the cell one past the array and reports nothing. Both
  sources have this check.
\<close>

theorem push_full_stack:
  "push err x (fresh\<lparr>s := DATA_STACK_SIZE - 1\<rparr>) =
     Some (fresh\<lparr>s := DATA_STACK_SIZE, dstack := (dstack fresh)(DATA_STACK_SIZE := x)\<rparr>) \<and>
   fw_push ferr x (fw_fresh\<lparr>s := DATA_STACK_SIZE - 1\<rparr>) =
     Some (fw_fresh\<lparr>s := DATA_STACK_SIZE, dstack := (dstack fw_fresh)(DATA_STACK_SIZE := x)\<rparr>)"
  by (simp add: push_def fw_push_def)

text \<open>
  C5. \<^verbatim>\<open>lit8\<close> pushes its operand byte sign-extended, so the bytecode 1, 0xFF pushes -1.
  The later source does not do this: \<^verbatim>\<open>lit8\<close> passes the \<^verbatim>\<open>uint8_t\<close> that \<^verbatim>\<open>memget\<close> returns
  to \<^verbatim>\<open>push\<close>, which extends it with zeros, and the interpreter pushes 255. The earlier
  source casts the byte to \<^verbatim>\<open>int8_t\<close> first and pushes -1.
\<close>

theorem lit8_zero_extends:
  "(\<exists>st'. step err (code_at [1, 0xFF]) = Some st' \<and> s st' = 0 \<and> dstack st' 0 = 255 \<and>
           sint (dstack st' 0) = 255) \<and>
   (\<exists>st'. fw_lit8 ferr ((fw_code_at [1, 0xFF])\<lparr>p := 1\<rparr>) = Some st' \<and> s st' = 0 \<and>
           sint (dstack st' 0) = - 1)"
  by (simp add: step_def memget_def instructions_lit8 lit8_def push_def code_at_def fresh_def
      fw_mem_def fw_lit8_def fw_push_def fw_code_at_def fw_fresh_def MEM_SIZE_def
      DATA_STACK_SIZE_def vm.defs)

text \<open>
  C6 as stated: after the intake of a definition frame of payload length \<open>L\<close>, \<^verbatim>\<open>last\<close> is
  the value \<^verbatim>\<open>here\<close> had before (the first byte of the new definition) and \<^verbatim>\<open>here\<close> is
  the old \<^verbatim>\<open>here\<close> plus \<open>L\<close>, so \<^verbatim>\<open>last < here\<close> when \<open>L > 0\<close>. In the later source this
  fails: \<^verbatim>\<open>loop\<close> ends the intake of a definition with \<^verbatim>\<open>last = here\<close>. The frame 3, 1, 42,
  0 (a definition of three bytes) received with \<^verbatim>\<open>here = 0\<close> leaves \<^verbatim>\<open>last = here = 3\<close>.
\<close>

theorem definition_frame_counterexample:
  "here fresh = 0 \<and>
   map_option here (loop 0 (error 0) (fresh\<lparr>serial_in := [3, 1, 42, 0]\<rparr>)) = Some 3 \<and>
   map_option last_addr (loop 0 (error 0) (fresh\<lparr>serial_in := [3, 1, 42, 0]\<rparr>)) = Some 3"
  by code_simp

text \<open>
  C6, amended. A definition frame of payload length \<open>L\<close> that fits into the dictionary
  leaves \<^verbatim>\<open>here\<close> at the old \<^verbatim>\<open>here\<close> plus \<open>L\<close> in both sources. In the later source
  (\<^verbatim>\<open>loop\<close>, with no loop word set) \<^verbatim>\<open>last\<close> is then equal to the new \<^verbatim>\<open>here\<close>: it points
  one past the stored definition, to the start of the scratch area. In the earlier source
  (\<^verbatim>\<open>frameReceived\<close>, called with the count \<open>L + 1\<close> of payload and flag byte, the flag
  not 0, and the new \<^verbatim>\<open>here\<close> not above \<^verbatim>\<open>locals\<close>) \<^verbatim>\<open>last\<close> is the old \<^verbatim>\<open>here\<close>, the
  first byte of the new definition, so there \<^verbatim>\<open>last < here\<close> when \<open>L > 0\<close>.
\<close>

theorem definition_frame_cursors:
  "(serial_in st = b # bs @ rest \<and> b AND 0x80 \<noteq> 0x80 \<and> unat (b AND 0x7f) = length bs \<and>
    0 \<le> sint (here st) \<and> sint (here st) + int (length bs) \<le> MEM_SIZE \<and>
    sint (loopword st) < 0 \<longrightarrow>
      loop n err st =
        Some (st\<lparr>here := here st + of_nat (length bs), serial_in := rest,
                 memory := stored (memory st) (sint (here st)) bs,
                 last_addr := here st + of_nat (length bs)\<rparr>) \<and>
      sint (here st + of_nat (length bs)) = sint (here st) + int (length bs)) \<and>
   (Suc L \<le> 255 \<and> 0 \<le> sint (here fwst) \<and> sint (here fwst) + int L \<le> MEM_SIZE \<and>
    sint (here fwst) + int L \<le> sint (locals fwst) \<and>
    memory fwst (sint (here fwst) + int L) \<noteq> 0 \<longrightarrow>
      fw_frameReceived ferr exec' sequence (of_nat (Suc L)) fwst =
        Some (fwst\<lparr>last_addr := here fwst, here := here fwst + of_nat L\<rparr>) \<and>
      sint (here fwst + of_nat L) = sint (here fwst) + int L)"
proof (intro conjI impI)
  assume a: "serial_in st = b # bs @ rest \<and> b AND 0x80 \<noteq> 0x80 \<and> unat (b AND 0x7f) = length bs \<and>
    0 \<le> sint (here st) \<and> sint (here st) + int (length bs) \<le> MEM_SIZE \<and>
    sint (loopword st) < 0"
  then show "loop n err st =
        Some (st\<lparr>here := here st + of_nat (length bs), serial_in := rest,
                 memory := stored (memory st) (sint (here st)) bs,
                 last_addr := here st + of_nat (length bs)\<rparr>)"
    by (intro loop_definition_frame) auto
  show "sint (here st + of_nat (length bs)) = sint (here st) + int (length bs)"
    using a MEM_SIZE_bound by (intro sint_add_nat) auto
next
  assume a: "Suc L \<le> 255 \<and> 0 \<le> sint (here fwst) \<and> sint (here fwst) + int L \<le> MEM_SIZE \<and>
    sint (here fwst) + int L \<le> sint (locals fwst) \<and>
    memory fwst (sint (here fwst) + int L) \<noteq> 0"
  have k: "(ucast (of_nat (Suc L) :: 8 word) :: 16 word) - 1 = of_nat L"
    using a by (simp add: unsigned_of_nat take_bit_nat_eq_self del: of_nat_Suc) simp
  show h: "sint (here fwst + of_nat L) = sint (here fwst) + int L"
    using a MEM_SIZE_bound by (intro sint_add_nat) auto
  show "fw_frameReceived ferr exec' sequence (of_nat (Suc L)) fwst =
        Some (fwst\<lparr>last_addr := here fwst, here := here fwst + of_nat L\<rparr>)"
    using a by (simp add: fw_frameReceived_def Let_def k h del: of_nat_Suc)
qed

theorem definition_frame_cursors_witness:
  "loop 0 (error 0) (fresh\<lparr>serial_in := [3, 1, 42, 0]\<rparr>) =
     Some (fresh\<lparr>here := 3, serial_in := [],
             memory := stored (memory fresh) 0 [1, 42, 0], last_addr := 3\<rparr>) \<and>
   fw_frameReceived (\<lambda>c st. None) (\<lambda>a st. None) 0 4 (fw_code_at [1, 42, 0, 1]) =
     Some ((fw_code_at [1, 42, 0, 1])\<lparr>last_addr := 0, here := 3\<rparr>)"
proof -
  let ?st = "fresh\<lparr>serial_in := [3, 1, 42, 0]\<rparr>"
  have "loop 0 (error 0) ?st =
     Some (fresh\<lparr>here := 3, serial_in := [],
             memory := stored (memory fresh) 0 [1, 42, 0], last_addr := 3\<rparr>)"
    using definition_frame_cursors [where st = ?st and b = 3 and bs = "[1, 42, 0]" and rest = "[]"
        and n = 0 and err = "error 0"]
    by (simp add: fresh_def MEM_SIZE_def)
  moreover have "fw_frameReceived (\<lambda>c st. None) (\<lambda>a st. None) 0 4 (fw_code_at [1, 42, 0, 1]) =
     Some ((fw_code_at [1, 42, 0, 1])\<lparr>last_addr := 0, here := 3\<rparr>)"
    using definition_frame_cursors [where fwst = "fw_code_at [1, 42, 0, 1]" and L = 3
        and ferr = "\<lambda>c st. None" and exec' = "\<lambda>a st. None" and sequence = 0]
    by (simp add: fw_code_at_def fw_fresh_def fresh_def MEM_SIZE_def vm.defs)
  ultimately show ?thesis
    by simp
qed




text \<open>
  C8. Starting from \<^verbatim>\<open>resetBoard\<close>, every primitive and every frame intake should preserve
  \<open>0 \<le> last \<le> here \<le> MEM_SIZE\<close>, in particular \<^verbatim>\<open>forget\<close>; the source says of \<^verbatim>\<open>last\<close> that
  it is the end of the last definition, from where immediate code is stored and run.
  \<^verbatim>\<open>forget\<close> does not keep it: it compares the popped address with \<^verbatim>\<open>here\<close> only and
  never writes \<^verbatim>\<open>last\<close>. After \<^verbatim>\<open>resetBoard\<close>, the definition frame 3, 1, 42, 0 and the
  immediate frame 0x83, 1, 0, 41 (\<^verbatim>\<open>lit8 0\<close>, \<^verbatim>\<open>forget\<close>) leave \<^verbatim>\<open>here = 0\<close> below
  \<^verbatim>\<open>last = 3\<close>. The next immediate frame 0x82, 1, 7 (\<^verbatim>\<open>lit8 7\<close>) is then stored at 0 and
  the code at 3 is run in its place: the stack stays empty, where the same frame sent
  after \<^verbatim>\<open>resetBoard\<close> leaves 7 on it. \<^verbatim>\<open>forget\<close> also takes a negative address.
\<close>

theorem forget_below_last:
  "map_option dict_inv
     (resetBoard (error 0) (fresh\<lparr>serial_in := [3, 1, 42, 0, 0x83, 1, 0, 41, 0x82, 1, 7]\<rparr>)) =
     Some True \<and>
   map_option here
     (resetBoard (error 0) (fresh\<lparr>serial_in := [3, 1, 42, 0, 0x83, 1, 0, 41, 0x82, 1, 7]\<rparr>)
      \<bind> loop 0 (error 0) \<bind> loop 4 (error 0)) = Some 0 \<and>
   map_option last_addr
     (resetBoard (error 0) (fresh\<lparr>serial_in := [3, 1, 42, 0, 0x83, 1, 0, 41, 0x82, 1, 7]\<rparr>)
      \<bind> loop 0 (error 0) \<bind> loop 4 (error 0)) = Some 3 \<and>
   map_option dict_inv
     (resetBoard (error 0) (fresh\<lparr>serial_in := [3, 1, 42, 0, 0x83, 1, 0, 41, 0x82, 1, 7]\<rparr>)
      \<bind> loop 0 (error 0) \<bind> loop 4 (error 0)) = Some False \<and>
   map_option s
     (resetBoard (error 0) (fresh\<lparr>serial_in := [3, 1, 42, 0, 0x83, 1, 0, 41, 0x82, 1, 7]\<rparr>)
      \<bind> loop 0 (error 0) \<bind> loop 4 (error 0) \<bind> loop 4 (error 0)) = Some (- 1) \<and>
   map_option s
     (resetBoard (error 0) (fresh\<lparr>serial_in := [0x82, 1, 7]\<rparr>) \<bind> loop 4 (error 0)) = Some 0 \<and>
   map_option here
     (forget (error 0) (fresh\<lparr>s := 0, dstack := (dstack fresh)(0 := - 1)\<rparr>)) = Some (- 1)"
  by code_simp

text \<open>
  C9 as stated: when \<^verbatim>\<open>eventBody8\<close>, \<^verbatim>\<open>eventBody16\<close> or \<^verbatim>\<open>eventFooter\<close> runs while the
  event cursor still has its initial value \<^verbatim>\<open>MEM_SIZE\<close>, every body write raises
  \<^verbatim>\<open>OUT_OF_MEMORY\<close> and no byte of the dictionary array is modified. This fails:
  \<^verbatim>\<open>eventBody16\<close> of the value 0x1234 sends one error event, not two, and leaves the bytes
  4, 0, 0xFE, 0x34 in cells 0 to 3 of the array. The report of the first write runs
  \<^verbatim>\<open>eventHeader\<close> itself, which sets the cursor to \<^verbatim>\<open>here\<close>; the second write then is in
  range.
\<close>

theorem body_write_counterexample:
  "sint (eventBuffer fresh) = MEM_SIZE \<and>
   eventBody16 (error 1) (fresh\<lparr>s := 0, dstack := (dstack fresh)(0 := 0x1234)\<rparr>) =
     Some (fresh\<lparr>dstack := (dstack fresh)(0 := 0xFE),
             memory := (memory fresh)(0 := 4, 1 := 0, 2 := 0xFE, 3 := 0x34),
             eventBuffer := 4, serial_out := [2, 4, 0x00, 0xFE]\<rparr>) \<and>
   ((memory fresh)(0 := 4, 1 := 0, 2 := 0xFE, 3 := 0x34)) 3 \<noteq> memory fresh 3"
proof -
  let ?st1 = "fresh\<lparr>s := - 1, dstack := (dstack fresh)(0 := 0x1234), eventBuffer := 513\<rparr>"
  have e: "error (Suc 0) VM_ERROR_OUT_OF_MEMORY ?st1 =
         Some (?st1\<lparr>dstack := (dstack ?st1)(s ?st1 + 1 := 0xFE),
                  memory := (memory ?st1)(sint (here ?st1) := VM_ERROR_OUT_OF_MEMORY, sint (here ?st1) + 1 := 0,
                                        sint (here ?st1) + 2 := 0xFE),
                  eventBuffer := here ?st1 + 3,
                  serial_out := serial_out ?st1 @ [2, VM_ERROR_OUT_OF_MEMORY, 0, 0xFE]\<rparr>)"
    by (rule error_ok) (simp_all add: fresh_def DATA_STACK_SIZE_def MEM_SIZE_def)
  have low: "(0x1234 :: 8 word) = 0x34"
    by simp
  show ?thesis
    using e
    by (simp add: eventBody16_def pop_def memset_def fresh_def MEM_SIZE_def
        VM_ERROR_OUT_OF_MEMORY_def low Let_def del: error.simps)
qed

text \<open>
  C9, amended. While the event cursor has its initial value \<^verbatim>\<open>MEM_SIZE\<close> (and the data
  stack holds the operand, and the scratch area above \<^verbatim>\<open>here\<close> has room), the first body
  write of \<^verbatim>\<open>eventBody8\<close> and of \<^verbatim>\<open>eventBody16\<close> raises \<^verbatim>\<open>OUT_OF_MEMORY\<close> and stores
  nothing at the cursor: \<^verbatim>\<open>eventBody8\<close> is the pop, the advance of the cursor and the
  error report, and nothing else. The report packs its own event through \<^verbatim>\<open>eventHeader\<close>,
  which moves the cursor into the scratch area: when it returns, the cursor is inside the
  array, above \<^verbatim>\<open>here\<close>, and no cell below \<^verbatim>\<open>here\<close> has changed. The second write of
  \<^verbatim>\<open>eventBody16\<close> therefore is in range: it stores the low byte at the cursor that the
  report has left, and raises no second error.
\<close>

theorem body_without_header:
  assumes "sint (eventBuffer st) = MEM_SIZE" and "0 \<le> s st" and "s st < DATA_STACK_SIZE"
    and "0 \<le> sint (here st)" and "sint (here st) + 4 \<le> MEM_SIZE"
  shows "\<exists>rep. error (Suc n) VM_ERROR_OUT_OF_MEMORY
                 (st\<lparr>s := s st - 1, eventBuffer := eventBuffer st + 1\<rparr>) = Some rep \<and>
           eventBody8 (error (Suc n)) st = Some rep \<and>
           eventBody16 (error (Suc n)) st =
             Some (rep\<lparr>memory := (memory rep)(sint (eventBuffer rep) := ucast (dstack st (s st))),
                     eventBuffer := eventBuffer rep + 1\<rparr>) \<and>
           sint (here st) < sint (eventBuffer rep) \<and> sint (eventBuffer rep) < MEM_SIZE \<and>
           (\<forall>x. x < sint (here st) \<longrightarrow> memory rep x = memory st x) \<and>
           here rep = here st \<and> serial_out rep \<noteq> serial_out st"
proof -
  let ?st1 = "st\<lparr>s := s st - 1, eventBuffer := eventBuffer st + 1\<rparr>"
  let ?rep = "?st1\<lparr>dstack := (dstack ?st1)(s ?st1 + 1 := 0xFE),
                  memory := (memory ?st1)(sint (here ?st1) := VM_ERROR_OUT_OF_MEMORY,
                              sint (here ?st1) + 1 := 0, sint (here ?st1) + 2 := 0xFE),
                  eventBuffer := here ?st1 + 3,
                  serial_out := serial_out ?st1 @ [2, VM_ERROR_OUT_OF_MEMORY, 0, 0xFE]\<rparr>"
  have e1: "error (Suc n) VM_ERROR_OUT_OF_MEMORY ?st1 = Some ?rep"
    using assms by (intro error_ok) auto
  have h3: "sint (here st + 3) = sint (here st) + 3"
    using assms MEM_SIZE_bound sint_add_nat [of "here st" 3] by simp
  have b8: "eventBody8 (error (Suc n)) st = Some ?rep"
    using assms e1
    by (simp add: eventBody8_def pop_ok memset_def Let_def del: error.simps)
  have b16: "eventBody16 (error (Suc n)) st =
             Some (?rep\<lparr>memory := (memory ?rep)(sint (eventBuffer ?rep) := ucast (dstack st (s st))),
                     eventBuffer := eventBuffer ?rep + 1\<rparr>)"
    using assms e1
    by (simp add: eventBody16_def pop_ok memset_def h3 Let_def del: error.simps)
  have c: "sint (here st) < sint (eventBuffer ?rep)" "sint (eventBuffer ?rep) < MEM_SIZE"
    "\<forall>x. x < sint (here st) \<longrightarrow> memory ?rep x = memory st x"
    "here ?rep = here st" "serial_out ?rep \<noteq> serial_out st"
    using assms by (simp_all add: h3)
  show ?thesis
    using e1 b8 b16 c by blast
qed

theorem body_without_header_witness:
  "sint (eventBuffer fresh) = MEM_SIZE \<and>
   (\<exists>rep. eventBody8 (error (Suc 0)) (fresh\<lparr>here := 5, s := 0, dstack := (dstack fresh)(0 := 0x1234)\<rparr>) =
            Some rep \<and>
      eventBody16 (error (Suc 0)) (fresh\<lparr>here := 5, s := 0, dstack := (dstack fresh)(0 := 0x1234)\<rparr>) =
            Some (rep\<lparr>memory := (memory rep)(sint (eventBuffer rep) := 0x34),
                    eventBuffer := eventBuffer rep + 1\<rparr>) \<and>
      5 < sint (eventBuffer rep) \<and> sint (eventBuffer rep) < 512 \<and> memory rep 4 = 0 \<and>
      here rep = 5 \<and> serial_out rep \<noteq> [])"
proof -
  let ?st = "fresh\<lparr>here := 5, s := 0, dstack := (dstack fresh)(0 := 0x1234)\<rparr>"
  have f: "sint (eventBuffer ?st) = MEM_SIZE" "0 \<le> s ?st" "s ?st < DATA_STACK_SIZE"
    "0 \<le> sint (here ?st)" "sint (here ?st) + 4 \<le> MEM_SIZE"
    by (simp_all add: fresh_def MEM_SIZE_def DATA_STACK_SIZE_def)
  have low: "(0x1234 :: 8 word) = 0x34"
    by simp
  have g: "here ?st = 5" "serial_out ?st = []" "dstack ?st (s ?st) = 0x1234"
    "memory fresh 4 = 0" "sint (eventBuffer fresh) = MEM_SIZE" "sint (5 :: 16 word) = 5"
    by (simp_all add: fresh_def MEM_SIZE_def)
  show ?thesis
    using body_without_header [OF f, of 0]
    by (auto simp: g low MEM_SIZE_def simp del: error.simps)
qed

text \<open>
  C10. \<^verbatim>\<open>drop\<close> never raises an error and decrements the data stack pointer whatever
  it is, also on the empty stack: the interpreter step that executes opcode 32 returns
  whatever the error routine is, with only \<^verbatim>\<open>p\<close> and \<^verbatim>\<open>s\<close> changed. The underflow of a
  fragment that begins with \<^verbatim>\<open>drop\<close> is raised by the next \<^verbatim>\<open>pop\<close>.
\<close>

theorem drop_unchecked:
  assumes "0 \<le> sint (p st)" and "sint (p st) < MEM_SIZE" and "memory st (sint (p st)) = 32"
  shows "step err st = Some (st\<lparr>p := p st + 1, s := s st - 1\<rparr>) \<and>
         (s st \<le> 0 \<longrightarrow>
            pop err (st\<lparr>p := p st + 1, s := s st - 1\<rparr>) =
              do { st' \<leftarrow> err VM_ERROR_DATA_STACK_UNDERFLOW (st\<lparr>p := p st + 1, s := s st - 1\<rparr>);
                   Some (indet st', st') })"
  using assms by (simp add: step_def memget_ok instructions_drop drop_op_def pop_def)

theorem drop_unchecked_witness:
  "0 \<le> sint (p (code_at [32, 8])) \<and> sint (p (code_at [32, 8])) < MEM_SIZE \<and>
   memory (code_at [32, 8]) (sint (p (code_at [32, 8]))) = 32 \<and> s (code_at [32, 8]) \<le> 0 \<and>
   step (error 0) (code_at [32, 8]) = Some ((code_at [32, 8])\<lparr>p := 1, s := - 2\<rparr>)"
  using drop_unchecked [of "code_at [32, 8]" "error 0"]
  by (simp add: code_at_def fresh_def MEM_SIZE_def)

end
